theory Spec2Isabelle
  imports Main "HOL-Library.Word"
begin

section \<open>Values, errors and the primitives the code imports\<close>

text \<open>
  The cookie codec stores and returns values of TypeScript type \<open>any\<close>. The values that
  matter are the JSON values: \<open>parse\<close> returns \<open>null\<close>, the empty string \<open>""\<close>, the
  empty object \<open>{}\<close> or whatever \<open>JSON.parse\<close> produced. Numbers are kept as integers;
  the code never inspects one. The functions are \<open>async\<close> and \<open>await\<close> each call before
  the next, so each is modelled as the function from its arguments to what its promise
  resolves to, or to the exception it rejects with.
\<close>

datatype json =
    JNull
  | JBool bool
  | JNumber int
  | JString string
  | JArray "json list"
  | JObject "(string \<times> json) list"

text \<open>
  The exceptions that can leave the functions modelled here. Both are thrown by imported
  primitives and are not caught by the code, except inside \<open>decodeData\<close>.
\<close>

datatype error = InvalidCharacterError | TypeError

text \<open>
  Cookie options (\<open>path\<close>, \<open>maxAge\<close>, \<open>httpOnly\<close>, ...) are an object with optional
  properties; the spread \<open>{ ...options, ...serializeOptions }\<close> is the right-biased
  union \<open>options ++ serializeOptions\<close> of two maps. An omitted second argument of
  \<open>parse\<close> or \<open>serialize\<close> spreads to nothing and is the empty map.
\<close>

datatype option_value = OptString string | OptNumber int | OptBool bool

type_synonym cookie_opts = "string \<rightharpoonup> option_value"

text \<open>
  The functions the codec imports and does not define: \<open>JSON.stringify\<close>, \<open>JSON.parse\<close>,
  \<open>btoa\<close>, \<open>atob\<close>, and \<open>parse\<close> and \<open>serialize\<close> of the package \<open>cookie\<close>. They are
  parameters of the model. A primitive that can throw returns an option, \<open>None\<close> being the
  exception; \<open>JSON.stringify\<close> returns a string for every value of type \<open>json\<close>. The
  object returned by the package's \<open>parse\<close> is a map from cookie names to raw values, and
  \<open>name in cookies\<close> is membership in its domain.
\<close>

record platform =
  JSON_stringify :: "json \<Rightarrow> string"
  JSON_parse :: "string \<Rightarrow> json option"
  btoa :: "string \<Rightarrow> string option"
  atob :: "string \<Rightarrow> string option"
  cookie_serialize :: "string \<Rightarrow> string \<Rightarrow> cookie_opts \<Rightarrow> string option"
  cookie_parse :: "string \<Rightarrow> cookie_opts \<Rightarrow> (string \<rightharpoonup> string)"

text \<open>
  \<open>SignFunction\<close> and \<open>UnsignFunction\<close>: the pair injected into \<open>createCookieFactory\<close>.
  \<open>unsign\<close> returns the signed data or \<open>false\<close>, here \<open>None\<close>.
\<close>

type_synonym sign_function = "string \<Rightarrow> string \<Rightarrow> string"
type_synonym unsign_function = "string \<Rightarrow> string \<Rightarrow> string option"

section \<open>The cookie codec\<close>

text \<open>\<open>encodeData\<close>: \<open>btoa(JSON.stringify(value))\<close>; an exception of \<open>btoa\<close> propagates.\<close>

definition encodeData :: "platform \<Rightarrow> json \<Rightarrow> error + string" where
  "encodeData p v =
     (case btoa p (JSON_stringify p v) of
        None \<Rightarrow> Inl InvalidCharacterError
      | Some encoded \<Rightarrow> Inr encoded)"

text \<open>
  \<open>decodeData\<close>: \<open>JSON.parse(atob(value))\<close> inside \<open>try\<close>; the \<open>catch\<close> returns \<open>{}\<close>
  whichever of the two threw.
\<close>

definition decodeData :: "platform \<Rightarrow> string \<Rightarrow> json" where
  "decodeData p v =
     (case atob p v of
        None \<Rightarrow> JObject []
      | Some text \<Rightarrow>
          (case JSON_parse p text of
             None \<Rightarrow> JObject []
           | Some parsed \<Rightarrow> parsed))"

text \<open>\<open>encodeCookieValue\<close>: encode, then sign with \<open>secrets[0]\<close> when there is a secret.\<close>

definition encodeCookieValue ::
    "platform \<Rightarrow> sign_function \<Rightarrow> json \<Rightarrow> string list \<Rightarrow> error + string" where
  "encodeCookieValue p sign v secrets =
     (case encodeData p v of
        Inl e \<Rightarrow> Inl e
      | Inr encoded \<Rightarrow>
          if length secrets > 0 then Inr (sign encoded (secrets ! 0)) else Inr encoded)"

text \<open>
  The loop \<open>for (let secret of secrets)\<close> of \<open>decodeCookieValue\<close>: it returns at the first
  secret for which \<open>unsign\<close> does not return \<open>false\<close>, and \<open>null\<close> after the last one.
\<close>

fun unsign_loop :: "platform \<Rightarrow> unsign_function \<Rightarrow> string \<Rightarrow> string list \<Rightarrow> json" where
  "unsign_loop p unsign v [] = JNull"
| "unsign_loop p unsign v (secret # rest) =
     (case unsign v secret of
        Some unsignedValue \<Rightarrow> decodeData p unsignedValue
      | None \<Rightarrow> unsign_loop p unsign v rest)"

definition decodeCookieValue ::
    "platform \<Rightarrow> unsign_function \<Rightarrow> string \<Rightarrow> string list \<Rightarrow> json" where
  "decodeCookieValue p unsign v secrets =
     (if length secrets > 0 then unsign_loop p unsign v secrets else decodeData p v)"

text \<open>
  The argument \<open>cookieOptions\<close> of the function returned by \<open>createCookieFactory\<close>:
  an optional \<open>secrets\<close> and the remaining options.
\<close>

record cookie_options =
  opt_secrets :: "string list option"
  opt_rest :: cookie_opts

text \<open>
  The object returned by \<open>createCookie\<close>. Its methods close over \<open>sign\<close>, \<open>unsign\<close>,
  \<open>name\<close>, \<open>secrets\<close> and \<open>options\<close>; the record holds what they close over.
\<close>

record cookie =
  cookie_sign :: sign_function
  cookie_unsign :: unsign_function
  cookie_name :: string
  cookie_secrets :: "string list"
  cookie_options :: cookie_opts

text \<open>
  \<open>let { secrets, ...options } = { secrets: [], path: "/", ...cookieOptions }\<close>:
  the defaults are overridden by what the caller gave.
\<close>

definition createCookieFactory ::
    "sign_function \<Rightarrow> unsign_function \<Rightarrow> string \<Rightarrow> cookie_options \<Rightarrow> cookie" where
  "createCookieFactory sign unsign name cookieOptions =
     \<lparr> cookie_sign = sign,
       cookie_unsign = unsign,
       cookie_name = name,
       cookie_secrets = (case opt_secrets cookieOptions of None \<Rightarrow> [] | Some s \<Rightarrow> s),
       cookie_options = [''path'' \<mapsto> OptString ''/''] ++ opt_rest cookieOptions \<rparr>"

definition isSigned :: "cookie \<Rightarrow> bool" where
  "isSigned c = (length (cookie_secrets c) > 0)"

text \<open>
  \<open>parse(cookieHeader, parseOptions)\<close>. \<open>cookieHeader\<close> has type \<open>string | null\<close>;
  \<open>!cookieHeader\<close> holds for \<open>null\<close> and for the empty string.
\<close>

definition parse :: "platform \<Rightarrow> cookie \<Rightarrow> string option \<Rightarrow> cookie_opts \<Rightarrow> json" where
  "parse p c cookieHeader parseOptions =
     (case cookieHeader of
        None \<Rightarrow> JNull
      | Some header \<Rightarrow>
          if header = [] then JNull
          else
            (let cookies = cookie_parse p header (cookie_options c ++ parseOptions) in
             case cookies (cookie_name c) of
               None \<Rightarrow> JNull
             | Some raw \<Rightarrow>
                 if raw = [] then JString []
                 else decodeCookieValue p (cookie_unsign c) raw (cookie_secrets c)))"

text \<open>
  \<open>serialize(value, serializeOptions)\<close>: the empty string is passed to the package's
  \<open>serialize\<close> as it is, any other value is encoded first.
\<close>

definition serialize :: "platform \<Rightarrow> cookie \<Rightarrow> json \<Rightarrow> cookie_opts \<Rightarrow> error + string" where
  "serialize p c v serializeOptions =
     (case (if v = JString [] then Inr []
            else encodeCookieValue p (cookie_sign c) v (cookie_secrets c)) of
        Inl e \<Rightarrow> Inl e
      | Inr cookieValue \<Rightarrow>
          (case cookie_serialize p (cookie_name c) cookieValue
                  (cookie_options c ++ serializeOptions) of
             None \<Rightarrow> Inl TypeError
           | Some header \<Rightarrow> Inr header))"

section \<open>Header collections\<close>

text \<open>
  \<open>Headers\<close> of \<open>@remix-run/node\<close> is imported, not defined here. It is modelled as the
  list of its (name, value) entries in the order they were added; names are compared
  without regard to case. \<open>toLowerCase\<close> is the ASCII one, header names being ASCII.
  The methods are total in the model: the library's rejection of a name or value that is
  not legal in HTTP is not modelled. \<open>set\<close> leaves one entry with the name; where it
  stands in the list is not observed by the code.
\<close>

type_synonym headers = "(string \<times> string) list"

definition toLowerCase_char :: "char \<Rightarrow> char" where
  "toLowerCase_char c =
     (let n = (of_char c :: nat) in if 65 \<le> n \<and> n \<le> 90 then char_of (n + 32) else c)"

definition toLowerCase :: "string \<Rightarrow> string" where
  "toLowerCase s = map toLowerCase_char s"

definition same_name :: "string \<Rightarrow> string \<times> string \<Rightarrow> bool" where
  "same_name name entry = (toLowerCase (fst entry) = toLowerCase name)"

text \<open>\<open>Array.prototype.join\<close>.\<close>

fun join :: "string \<Rightarrow> string list \<Rightarrow> string" where
  "join sep [] = []"
| "join sep [x] = x"
| "join sep (x # y # rest) = x @ sep @ join sep (y # rest)"

definition headers_append :: "headers \<Rightarrow> string \<Rightarrow> string \<Rightarrow> headers" where
  "headers_append h name v = h @ [(name, v)]"

definition headers_delete :: "headers \<Rightarrow> string \<Rightarrow> headers" where
  "headers_delete h name = filter (\<lambda>entry. \<not> same_name name entry) h"

definition headers_set :: "headers \<Rightarrow> string \<Rightarrow> string \<Rightarrow> headers" where
  "headers_set h name v = headers_append (headers_delete h name) name v"

text \<open>\<open>get\<close>: \<open>null\<close> when no entry has the name, else the values joined by \<open>", "\<close>.\<close>

definition headers_get :: "headers \<Rightarrow> string \<Rightarrow> string option" where
  "headers_get h name =
     (case filter (same_name name) h of
        [] \<Rightarrow> None
      | entries \<Rightarrow> Some (join '', '' (map snd entries)))"

text \<open>
  \<open>raw()\<close>: one property per name, holding the array of that name's values. The key is
  the name as it was first added.
\<close>

fun headers_raw :: "headers \<Rightarrow> (string \<times> string list) list" where
  "headers_raw [] = []"
| "headers_raw ((name, v) # rest) =
     (name, v # map snd (filter (same_name name) rest))
       # headers_raw (filter (\<lambda>entry. \<not> same_name name entry) rest)"

text \<open>Iterating a \<open>Headers\<close> yields one pair per name: the lower-cased name and the joined values.\<close>

definition headers_entries :: "headers \<Rightarrow> (string \<times> string) list" where
  "headers_entries h =
     map (\<lambda>(name, vs). (toLowerCase name, join '', '' vs)) (headers_raw h)"

text \<open>\<open>Object.fromEntries\<close>: a later pair overwrites an earlier one with the same key.\<close>

definition Object_fromEntries :: "(string \<times> string) list \<Rightarrow> (string \<rightharpoonup> string)" where
  "Object_fromEntries entries = fold (\<lambda>(k, v) obj. obj(k \<mapsto> v)) entries Map.empty"

section \<open>The gateway adapter\<close>

text \<open>
  What the adapter imports from Node: the \<open>URL\<close> constructor followed by \<open>.href\<close>
  (\<open>None\<close> when the constructor throws), \<open>Buffer.from(s, "base64")\<close>, and the methods
  \<open>toString()\<close> and \<open>toString("base64")\<close> of a buffer.
\<close>

type_synonym byte = "8 word"

record node =
  URL_href :: "string \<Rightarrow> string \<Rightarrow> string option"
  Buffer_from_base64 :: "string \<Rightarrow> byte list"
  Buffer_toString :: "byte list \<Rightarrow> string"
  Buffer_toString_base64 :: "byte list \<Rightarrow> string"

text \<open>
  \<open>APIGatewayProxyEventV2\<close>, the fields the adapter reads. \<open>headers\<close> is an object whose
  property values are \<open>string | undefined\<close>; it is kept as the list \<open>Object.entries\<close>
  enumerates, and a property read is a lookup in it.
\<close>

record event =
  event_rawPath :: string
  event_rawQueryString :: string
  event_headers :: "(string \<times> string option) list"
  event_cookies :: "string list option"
  event_body :: "string option"
  event_isBase64Encoded :: bool
  event_method :: string

record abort_controller =
  signal_aborted :: bool

text \<open>The arguments given to the \<open>Request\<close> constructor.\<close>

record request =
  request_url :: string
  request_method :: string
  request_headers :: headers
  request_body :: "string option"
  request_abortController :: "abort_controller option"

text \<open>A value of type \<open>string | undefined\<close> is truthy when it is a non-empty string.\<close>

definition truthy :: "string option \<Rightarrow> bool" where
  "truthy v = (case v of None \<Rightarrow> False | Some s \<Rightarrow> s \<noteq> [])"

definition property :: "(string \<times> string option) list \<Rightarrow> string \<Rightarrow> string option" where
  "property obj key = (case map_of obj key of None \<Rightarrow> None | Some v \<Rightarrow> v)"

text \<open>A template literal prints \<open>undefined\<close> as the word.\<close>

definition template :: "string option \<Rightarrow> string" where
  "template v = (case v of None \<Rightarrow> ''undefined'' | Some s \<Rightarrow> s)"

text \<open>The loop of \<open>createRemixHeaders\<close> over \<open>Object.entries(requestHeaders)\<close>.\<close>

fun append_truthy :: "headers \<Rightarrow> (string \<times> string option) list \<Rightarrow> headers" where
  "append_truthy headers [] = headers"
| "append_truthy headers ((header, v) # rest) =
     append_truthy
       (case v of
          None \<Rightarrow> headers
        | Some s \<Rightarrow> if s \<noteq> [] then headers_append headers header s else headers)
       rest"

text \<open>\<open>if (requestCookies)\<close>: an array is truthy, the empty one too; \<open>undefined\<close> is not.\<close>

definition createRemixHeaders ::
    "(string \<times> string option) list \<Rightarrow> string list option \<Rightarrow> headers" where
  "createRemixHeaders requestHeaders requestCookies =
     (let headers = append_truthy [] requestHeaders in
      case requestCookies of
        None \<Rightarrow> headers
      | Some cs \<Rightarrow> headers_append headers ''Cookie'' (join ''; '' cs))"

definition createRemixRequest ::
    "node \<Rightarrow> event \<Rightarrow> abort_controller option \<Rightarrow> error + request" where
  "createRemixRequest nd ev abortController =
     (let host = (if truthy (property (event_headers ev) ''x-forwarded-host'')
                  then property (event_headers ev) ''x-forwarded-host''
                  else property (event_headers ev) ''host'');
          search = (if length (event_rawQueryString ev) \<noteq> 0
                    then ''?'' @ event_rawQueryString ev else [])
      in case URL_href nd (event_rawPath ev @ search) (''https://'' @ template host) of
           None \<Rightarrow> Inl TypeError
         | Some href \<Rightarrow>
             Inr \<lparr> request_url = href,
                   request_method = event_method ev,
                   request_headers = createRemixHeaders (event_headers ev) (event_cookies ev),
                   request_body =
                     (if truthy (event_body ev) \<and> event_isBase64Encoded ev
                      then map_option (\<lambda>b. Buffer_toString nd (Buffer_from_base64 nd b)) (event_body ev)
                      else event_body ev),
                   request_abortController = abortController \<rparr>)"

text \<open>The response given to \<open>sendRemixResponse\<close>: what its methods and properties return.\<close>

record response =
  response_status :: int
  response_headers :: headers
  response_arrayBuffer :: "byte list"
  response_text :: string

record result =
  result_statusCode :: int
  result_headers :: "string \<rightharpoonup> string"
  result_cookies :: "string list"
  result_body :: string
  result_isBase64Encoded :: bool

text \<open>
  Modelled from the spec: \<open>isBinaryType\<close> is imported from \<open>./binaryTypes\<close>, which is not
  among the sources. The specification says that content types are matched by exact
  string equality against a fixed allow-list; the list itself is a parameter.
\<close>

definition isBinaryType :: "string list \<Rightarrow> string option \<Rightarrow> bool" where
  "isBinaryType binaryTypes contentType =
     (case contentType of None \<Rightarrow> False | Some t \<Rightarrow> t \<in> set binaryTypes)"

text \<open>The two nested loops of \<open>sendRemixResponse\<close> that fill \<open>cookies\<close>.\<close>

fun push_values :: "string list \<Rightarrow> string list \<Rightarrow> string list" where
  "push_values cookies [] = cookies"
| "push_values cookies (v # rest) = push_values (cookies @ [v]) rest"

fun collect_cookies :: "string list \<Rightarrow> (string \<times> string list) list \<Rightarrow> string list" where
  "collect_cookies cookies [] = cookies"
| "collect_cookies cookies ((key, vs) # rest) =
     collect_cookies
       (if toLowerCase key = ''set-cookie'' then push_values cookies vs else cookies)
       rest"

definition sendRemixResponse ::
    "node \<Rightarrow> string list \<Rightarrow> response \<Rightarrow> abort_controller \<Rightarrow> result" where
  "sendRemixResponse nd binaryTypes nodeResponse abortController =
     (let cookies = collect_cookies [] (headers_raw (response_headers nodeResponse));
          h1 = (if length cookies \<noteq> 0
                then headers_delete (response_headers nodeResponse) ''Set-Cookie''
                else response_headers nodeResponse);
          h2 = (if signal_aborted abortController
                then headers_set h1 ''Connection'' ''close'' else h1);
          contentType = headers_get h2 ''Content-Type'';
          isBinary = isBinaryType binaryTypes contentType
      in \<lparr> result_statusCode = response_status nodeResponse,
           result_headers = Object_fromEntries (headers_entries h2),
           result_cookies = cookies,
           result_body =
             (if isBinary then Buffer_toString_base64 nd (response_arrayBuffer nodeResponse)
              else response_text nodeResponse),
           result_isBase64Encoded = isBinary \<rparr>)"

section \<open>An instance of the imported primitives\<close>

text \<open>
  The theorems below hold for every choice of the imported primitives that meets their
  hypotheses. To apply them to concrete cookies, events and responses, this section gives
  one such choice: standard base64, a signature that appends the secret, a cookie header
  of the form \<open>name=value\<close>, JSON for \<open>null\<close>, the booleans and strings without escapes,
  and URLs that need no normalisation.
\<close>

definition base64_alphabet :: string where
  "base64_alphabet = ''ABCDEFGHIJKLMNOPQRSTUVWXYZabcdefghijklmnopqrstuvwxyz0123456789+/''"

fun base64_encode :: "nat list \<Rightarrow> string" where
  "base64_encode [] = []"
| "base64_encode [a] =
     [base64_alphabet ! (a div 4), base64_alphabet ! (a mod 4 * 16), CHR ''='', CHR ''='']"
| "base64_encode [a, b] =
     [base64_alphabet ! (a div 4), base64_alphabet ! (a mod 4 * 16 + b div 16),
      base64_alphabet ! (b mod 16 * 4), CHR ''='']"
| "base64_encode (a # b # c # rest) =
     [base64_alphabet ! (a div 4), base64_alphabet ! (a mod 4 * 16 + b div 16),
      base64_alphabet ! (b mod 16 * 4 + c div 64), base64_alphabet ! (c mod 64)]
       @ base64_encode rest"

definition sextet :: "char \<Rightarrow> nat option" where
  "sextet ch = map_of (zip base64_alphabet [0 ..< 64]) ch"

fun base64_decode :: "string \<Rightarrow> nat list option" where
  "base64_decode [] = Some []"
| "base64_decode (a # b # c # d # rest) =
     (case (sextet a, sextet b) of
        (Some x, Some y) \<Rightarrow>
          if c = CHR ''='' \<and> d = CHR ''='' \<and> rest = [] then Some [x * 4 + y div 16]
          else
            (case sextet c of
               None \<Rightarrow> None
             | Some z \<Rightarrow>
                 if d = CHR ''='' \<and> rest = []
                 then Some [x * 4 + y div 16, y mod 16 * 16 + z div 4]
                 else
                   (case sextet d of
                      None \<Rightarrow> None
                    | Some w \<Rightarrow>
                        map_option
                          (\<lambda>bytes. [x * 4 + y div 16, y mod 16 * 16 + z div 4, z mod 4 * 64 + w]
                             @ bytes)
                          (base64_decode rest)))
      | _ \<Rightarrow> None)"
| "base64_decode _ = None"

definition plain_stringify :: "json \<Rightarrow> string" where
  "plain_stringify v =
     (case v of
        JNull \<Rightarrow> ''null''
      | JBool b \<Rightarrow> (if b then ''true'' else ''false'')
      | JString s \<Rightarrow> [CHR 0x22] @ s @ [CHR 0x22]
      | _ \<Rightarrow> ''{}'')"

definition plain_parse :: "string \<Rightarrow> json option" where
  "plain_parse s =
     (if s = ''null'' then Some JNull
      else if s = ''true'' then Some (JBool True)
      else if s = ''false'' then Some (JBool False)
      else if s = ''{}'' then Some (JObject [])
      else if 2 \<le> length s \<and> hd s = CHR 0x22 \<and> last s = CHR 0x22
              \<and> CHR 0x22 \<notin> set (butlast (tl s))
      then Some (JString (butlast (tl s)))
      else None)"

fun split_at :: "char \<Rightarrow> string \<Rightarrow> string list" where
  "split_at sep [] = [[]]"
| "split_at sep (ch # rest) =
     (if ch = sep then [] # split_at sep rest
      else (case split_at sep rest of
              [] \<Rightarrow> [[ch]]
            | piece # pieces \<Rightarrow> (ch # piece) # pieces))"

definition pair_of :: "string \<Rightarrow> string \<times> string" where
  "pair_of s =
     (let t = dropWhile (\<lambda>ch. ch = CHR '' '') s in
      (takeWhile (\<lambda>ch. ch \<noteq> CHR ''='') t, drop 1 (dropWhile (\<lambda>ch. ch \<noteq> CHR ''='') t)))"

definition plain_cookie_parse :: "string \<Rightarrow> cookie_opts \<Rightarrow> (string \<rightharpoonup> string)" where
  "plain_cookie_parse header opts = map_of (map pair_of (split_at CHR '';'' header))"

definition plain_cookie_serialize :: "string \<Rightarrow> string \<Rightarrow> cookie_opts \<Rightarrow> string option" where
  "plain_cookie_serialize name v opts =
     (if name = [] \<or> CHR ''='' \<in> set name \<or> CHR '';'' \<in> set name \<or> CHR '' '' \<in> set name
         \<or> CHR '';'' \<in> set v
      then None else Some (name @ ''='' @ v))"

definition plain :: platform where
  "plain =
     \<lparr> JSON_stringify = plain_stringify,
       JSON_parse = plain_parse,
       btoa = (\<lambda>s. Some (base64_encode (map of_char s))),
       atob = (\<lambda>s. map_option (map char_of) (base64_decode s)),
       cookie_serialize = plain_cookie_serialize,
       cookie_parse = plain_cookie_parse \<rparr>"

definition suffix_sign :: sign_function where
  "suffix_sign d secret = d @ ''.'' @ secret"

definition suffix_unsign :: unsign_function where
  "suffix_unsign v secret =
     (let n = length v - (length secret + 1) in
      if length secret + 1 \<le> length v \<and> drop n v = ''.'' @ secret
      then Some (take n v) else None)"



definition plain_node :: node where
  "plain_node =
     \<lparr> URL_href = (\<lambda>rel base.
         if take 1 rel = ''/'' \<and> take 8 base = ''https://'' \<and> 8 < length base
         then Some (base @ rel) else None),
       Buffer_from_base64 =
         (\<lambda>s. case base64_decode s of None \<Rightarrow> [] | Some octets \<Rightarrow> map of_nat octets),
       Buffer_toString = map (\<lambda>b. char_of (unat b)),
       Buffer_toString_base64 = (\<lambda>bytes. base64_encode (map unat bytes)) \<rparr>"

section \<open>Facts about the instance\<close>

lemmas plain_defs = plain_def plain_cookie_parse_def plain_cookie_serialize_def pair_of_def
  plain_stringify_def plain_parse_def createCookieFactory_def

lemma btoa_hi: "btoa plain (JSON_stringify plain (JString ''hi'')) = Some ''ImhpIg==''"
  by code_simp

lemma decode_hi: "decodeData plain ''ImhpIg=='' = JString ''hi''"
  by code_simp




section \<open>The cookie codec: parsing\<close>

lemma unsign_loop_none:
  "\<forall>s\<in>set secrets. unsign v s = None \<Longrightarrow> unsign_loop p unsign v secrets = JNull"
  by (induction secrets) auto

lemma unsign_loop_first:
  "\<forall>s\<in>set pre. unsign v s = None \<Longrightarrow> unsign v s = Some u \<Longrightarrow>
   unsign_loop p unsign v (pre @ s # post) = decodeData p u"
  by (induction pre) auto

lemma parse_present:
  "h \<noteq> [] \<Longrightarrow> cookie_parse p h (cookie_options c ++ po) (cookie_name c) = Some raw \<Longrightarrow> raw \<noteq> [] \<Longrightarrow>
   parse p c (Some h) po = decodeCookieValue p (cookie_unsign c) raw (cookie_secrets c)"
  by (simp add: parse_def)



text \<open>
  Claim C9. For a handle without secrets, a present and non-empty cookie value on which
  \<open>atob\<close> or \<open>JSON.parse\<close> throws parses to the empty object \<open>{}\<close>; no exception leaves
  \<open>parse\<close>.
\<close>

theorem decode_failure_empty_object:
  assumes "cookie_secrets c = []" "h \<noteq> []"
    and "cookie_parse p h (cookie_options c ++ po) (cookie_name c) = Some raw" "raw \<noteq> []"
    and "atob p raw = None \<or> (\<exists>t. atob p raw = Some t \<and> JSON_parse p t = None)"
  shows "parse p c (Some h) po = JObject []"
  using assms by (auto simp: parse_def decodeCookieValue_def decodeData_def)

theorem decode_failure_empty_object_witness:
  "parse plain (createCookieFactory suffix_sign suffix_unsign ''session''
       \<lparr>opt_secrets = None, opt_rest = Map.empty\<rparr>) (Some ''session=%%%'') Map.empty = JObject []"
proof -
  let ?c = "createCookieFactory suffix_sign suffix_unsign ''session''
       \<lparr>opt_secrets = None, opt_rest = Map.empty\<rparr>"
  have 1: "cookie_secrets ?c = []" by (simp add: plain_defs)
  have 2: "''session=%%%'' \<noteq> []" by simp
  have 3: "cookie_parse plain ''session=%%%'' (cookie_options ?c ++ Map.empty) (cookie_name ?c) = Some ''%%%''"
    by (simp add: plain_defs)
  have 4: "''%%%'' \<noteq> []" by simp
  have 5: "atob plain ''%%%'' = None \<or> (\<exists>t. atob plain ''%%%'' = Some t \<and> JSON_parse plain t = None)"
    by (simp add: plain_def)
  from decode_failure_empty_object [OF 1 2 3 4 5] show ?thesis .
qed

text \<open>
  Claim C2. For a handle with at least one secret and a present, non-empty cookie value,
  \<open>parse\<close> tries the secrets in list order and returns \<open>decodeData\<close> of what the first
  verifying secret unsigns; when no secret verifies the value it returns \<open>null\<close>, and no
  exception leaves it. Hence a value signed with \<open>S\<close>, which \<open>S\<close> verifies and \<open>S2\<close> does not,
  still parses under the secrets \<open>[S2, S]\<close>, and a value signed with a secret that is not
  in the list, which no listed secret verifies, parses to \<open>null\<close>.
\<close>

theorem parse_signed:
  assumes "cookie_secrets c \<noteq> []" "h \<noteq> []"
    and "cookie_parse p h (cookie_options c ++ po) (cookie_name c) = Some raw" "raw \<noteq> []"
  shows "((\<forall>s\<in>set (cookie_secrets c). cookie_unsign c raw s = None) \<longrightarrow>
            parse p c (Some h) po = JNull) \<and>
    (\<forall>pre s post u. cookie_secrets c = pre @ s # post \<and>
        (\<forall>s'\<in>set pre. cookie_unsign c raw s' = None) \<and> cookie_unsign c raw s = Some u \<longrightarrow>
        parse p c (Some h) po = decodeData p u) \<and>
    (\<forall>S2 S d. cookie_secrets c = [S2, S] \<and> raw = cookie_sign c d S \<and>
        cookie_unsign c raw S = Some d \<and> (S2 \<noteq> S \<longrightarrow> cookie_unsign c raw S2 = None) \<longrightarrow>
        parse p c (Some h) po = decodeData p d) \<and>
    (\<forall>S d. raw = cookie_sign c d S \<and> S \<notin> set (cookie_secrets c) \<and>
        (\<forall>s\<in>set (cookie_secrets c). s \<noteq> S \<longrightarrow> cookie_unsign c raw s = None) \<longrightarrow>
        parse p c (Some h) po = JNull)"
proof -
  have eq: "parse p c (Some h) po = unsign_loop p (cookie_unsign c) raw (cookie_secrets c)"
    using assms by (simp add: parse_present decodeCookieValue_def)
  have none: "(\<forall>s\<in>set (cookie_secrets c). cookie_unsign c raw s = None) \<longrightarrow>
      unsign_loop p (cookie_unsign c) raw (cookie_secrets c) = JNull"
    by (simp add: unsign_loop_none)
  have first: "\<forall>pre s post u. cookie_secrets c = pre @ s # post \<and>
        (\<forall>s'\<in>set pre. cookie_unsign c raw s' = None) \<and> cookie_unsign c raw s = Some u \<longrightarrow>
        unsign_loop p (cookie_unsign c) raw (cookie_secrets c) = decodeData p u"
    by (auto simp: unsign_loop_first)
  have rotate: "\<forall>S2 S d. cookie_secrets c = [S2, S] \<and> raw = cookie_sign c d S \<and>
        cookie_unsign c raw S = Some d \<and> (S2 \<noteq> S \<longrightarrow> cookie_unsign c raw S2 = None) \<longrightarrow>
        unsign_loop p (cookie_unsign c) raw (cookie_secrets c) = decodeData p d"
    by (auto split: option.splits)
  have absent: "\<forall>S d. raw = cookie_sign c d S \<and> S \<notin> set (cookie_secrets c) \<and>
        (\<forall>s\<in>set (cookie_secrets c). s \<noteq> S \<longrightarrow> cookie_unsign c raw s = None) \<longrightarrow>
        unsign_loop p (cookie_unsign c) raw (cookie_secrets c) = JNull"
  proof (intro allI impI, elim conjE)
    fix S d
    assume notin: "S \<notin> set (cookie_secrets c)"
      and others: "\<forall>s\<in>set (cookie_secrets c). s \<noteq> S \<longrightarrow> cookie_unsign c raw s = None"
    have "\<forall>s\<in>set (cookie_secrets c). cookie_unsign c raw s = None"
    proof
      fix s
      assume s: "s \<in> set (cookie_secrets c)"
      with notin have "s \<noteq> S" by auto
      with others s show "cookie_unsign c raw s = None" by simp
    qed
    then show "unsign_loop p (cookie_unsign c) raw (cookie_secrets c) = JNull"
      by (rule unsign_loop_none)
  qed
  show ?thesis
    unfolding eq by (intro conjI none first rotate absent)
qed

theorem parse_signed_witness:
  "parse plain (createCookieFactory suffix_sign suffix_unsign ''session''
       \<lparr>opt_secrets = Some [''new'', ''old''], opt_rest = Map.empty\<rparr>)
     (Some ''session=ImhpIg==.old'') Map.empty = JString ''hi'' \<and>
   parse plain (createCookieFactory suffix_sign suffix_unsign ''session''
       \<lparr>opt_secrets = Some [''new'', ''old''], opt_rest = Map.empty\<rparr>)
     (Some ''session=ImhpIg==.gone'') Map.empty = JNull"
proof -
  let ?c = "createCookieFactory suffix_sign suffix_unsign ''session''
       \<lparr>opt_secrets = Some [''new'', ''old''], opt_rest = Map.empty\<rparr>"
  have s: "cookie_secrets ?c \<noteq> []" by (simp add: plain_defs)
  have old: "cookie_parse plain ''session=ImhpIg==.old'' (cookie_options ?c ++ Map.empty) (cookie_name ?c)
      = Some ''ImhpIg==.old''"
    by (simp add: plain_defs)
  have gone: "cookie_parse plain ''session=ImhpIg==.gone'' (cookie_options ?c ++ Map.empty) (cookie_name ?c)
      = Some ''ImhpIg==.gone''"
    by (simp add: plain_defs)
  have rot: "cookie_secrets ?c = [''new'', ''old''] \<and>
      ''ImhpIg==.old'' = cookie_sign ?c ''ImhpIg=='' ''old'' \<and>
      cookie_unsign ?c ''ImhpIg==.old'' ''old'' = Some ''ImhpIg=='' \<and>
      (''new'' \<noteq> ''old'' \<longrightarrow> cookie_unsign ?c ''ImhpIg==.old'' ''new'' = None)"
    by (simp add: plain_defs suffix_sign_def suffix_unsign_def)
  have none: "''ImhpIg==.gone'' = cookie_sign ?c ''ImhpIg=='' ''gone'' \<and>
      ''gone'' \<notin> set (cookie_secrets ?c) \<and>
      (\<forall>s\<in>set (cookie_secrets ?c). s \<noteq> ''gone'' \<longrightarrow> cookie_unsign ?c ''ImhpIg==.gone'' s = None)"
    by (simp add: plain_defs suffix_sign_def suffix_unsign_def)
  have ne1: "''session=ImhpIg==.old'' \<noteq> []" and ne2: "''ImhpIg==.old'' \<noteq> []"
    and ne3: "''session=ImhpIg==.gone'' \<noteq> []" and ne4: "''ImhpIg==.gone'' \<noteq> []"
    by simp_all
  note rotation = parse_signed [OF s ne1 old ne2,
      THEN conjunct2, THEN conjunct2, THEN conjunct1, rule_format]
  note absent = parse_signed [OF s ne3 gone ne4,
      THEN conjunct2, THEN conjunct2, THEN conjunct2, rule_format]
  have "parse plain ?c (Some ''session=ImhpIg==.old'') Map.empty = decodeData plain ''ImhpIg==''"
    by (rule rotation) (rule rot)
  moreover have "parse plain ?c (Some ''session=ImhpIg==.gone'') Map.empty = JNull"
    by (rule absent) (rule none)
  ultimately show ?thesis
    by (simp only: decode_hi simp_thms)
qed

section \<open>The cookie codec: serializing\<close>

text \<open>
  Claim C6. For a value other than the empty string, the cookie value given to the
  package's \<open>serialize\<close> is \<open>btoa(JSON.stringify(v))\<close> when there is no secret, and that
  string signed with the first secret otherwise; the other secrets do not occur in it.
\<close>

theorem serialize_encoding:
  "v \<noteq> JString [] \<Longrightarrow>
   serialize p c v so =
     (case btoa p (JSON_stringify p v) of
        None \<Rightarrow> Inl InvalidCharacterError
      | Some encoded \<Rightarrow>
          (case cookie_serialize p (cookie_name c)
                  (case cookie_secrets c of [] \<Rightarrow> encoded | first # others \<Rightarrow> cookie_sign c encoded first)
                  (cookie_options c ++ so) of
             None \<Rightarrow> Inl TypeError
           | Some header \<Rightarrow> Inr header))"
  by (simp add: serialize_def encodeCookieValue_def encodeData_def split: option.splits list.splits)

theorem serialize_encoding_witness:
  "JString ''hi'' \<noteq> JString [] \<and>
   serialize plain (createCookieFactory suffix_sign suffix_unsign ''session''
       \<lparr>opt_secrets = Some [''k1'', ''k0''], opt_rest = Map.empty\<rparr>) (JString ''hi'') Map.empty
     = Inr ''session=ImhpIg==.k1''"
proof -
  have ne: "JString ''hi'' \<noteq> JString []" by simp
  show ?thesis
    using serialize_encoding [OF ne, where p = plain and so = Map.empty and
      c = "createCookieFactory suffix_sign suffix_unsign ''session''
             \<lparr>opt_secrets = Some [''k1'', ''k0''], opt_rest = Map.empty\<rparr>"]
    by (simp add: btoa_hi) (simp add: plain_defs suffix_sign_def)
qed

section \<open>The cookie codec: round trip\<close>








section \<open>The gateway adapter: requests\<close>

text \<open>
  Claim C7. In the request built by \<open>createRemixRequest\<close>, the body is the base64
  decoding of the event's body, read as text, when the event has a non-empty body and
  \<open>isBase64Encoded\<close> is true; for every other event it is the event's body as it is,
  \<open>undefined\<close> included.
\<close>

theorem request_body_decoding:
  assumes "createRemixRequest nd ev ac = Inr req"
  shows "(\<forall>b. event_body ev = Some b \<and> b \<noteq> [] \<and> event_isBase64Encoded ev \<longrightarrow>
            request_body req = Some (Buffer_toString nd (Buffer_from_base64 nd b))) \<and>
         (\<not> (\<exists>b. event_body ev = Some b \<and> b \<noteq> [] \<and> event_isBase64Encoded ev) \<longrightarrow>
            request_body req = event_body ev)"
  using assms
  by (auto simp: createRemixRequest_def Let_def truthy_def split: option.splits)

theorem request_body_decoding_witness:
  "createRemixRequest plain_node
      \<lparr>event_rawPath = ''/upload'', event_rawQueryString = [],
        event_headers = [(''host'', Some ''x.test'')], event_cookies = None,
        event_body = Some ''aGVsbG8='', event_isBase64Encoded = True,
        event_method = ''POST''\<rparr> None
     = Inr \<lparr>request_url = ''https://x.test/upload'', request_method = ''POST'',
            request_headers = [(''host'', ''x.test'')], request_body = Some ''hello'',
            request_abortController = None\<rparr> \<and>
   createRemixRequest plain_node
      \<lparr>event_rawPath = ''/upload'', event_rawQueryString = [],
        event_headers = [(''host'', Some ''x.test'')], event_cookies = None,
        event_body = Some ''aGVsbG8='', event_isBase64Encoded = False,
        event_method = ''POST''\<rparr> None
     = Inr \<lparr>request_url = ''https://x.test/upload'', request_method = ''POST'',
            request_headers = [(''host'', ''x.test'')], request_body = Some ''aGVsbG8='',
            request_abortController = None\<rparr>"
proof -
  let ?ev = "\<lambda>b64. \<lparr>event_rawPath = ''/upload'', event_rawQueryString = [],
        event_headers = [(''host'', Some ''x.test'')], event_cookies = None,
        event_body = Some ''aGVsbG8='', event_isBase64Encoded = b64,
        event_method = ''POST''\<rparr>"
  have url: "URL_href plain_node ''/upload'' ''https://x.test'' = Some ''https://x.test/upload''"
    by (simp add: plain_node_def)
  have hs: "createRemixHeaders [(''host'', Some ''x.test'')] None = [(''host'', ''x.test'')]"
    by (simp add: createRemixHeaders_def headers_append_def)
  have decoded: "Buffer_toString plain_node (Buffer_from_base64 plain_node ''aGVsbG8='') = ''hello''"
    by code_simp
  obtain r1 where r1: "createRemixRequest plain_node (?ev True) None = Inr r1"
    and r1': "request_url r1 = ''https://x.test/upload''" "request_method r1 = ''POST''"
      "request_headers r1 = [(''host'', ''x.test'')]" "request_abortController r1 = None"
    by (simp add: createRemixRequest_def Let_def property_def truthy_def template_def url hs)
  obtain r2 where r2: "createRemixRequest plain_node (?ev False) None = Inr r2"
    and r2': "request_url r2 = ''https://x.test/upload''" "request_method r2 = ''POST''"
      "request_headers r2 = [(''host'', ''x.test'')]" "request_abortController r2 = None"
    by (simp add: createRemixRequest_def Let_def property_def truthy_def template_def url hs)
  from request_body_decoding [OF r1] have "request_body r1 = Some ''hello''"
    by (simp add: decoded)
  with r1' have "r1 = \<lparr>request_url = ''https://x.test/upload'', request_method = ''POST'',
            request_headers = [(''host'', ''x.test'')], request_body = Some ''hello'',
            request_abortController = None\<rparr>"
    by (cases r1) simp
  moreover from request_body_decoding [OF r2] have "request_body r2 = Some ''aGVsbG8=''"
    by simp
  with r2' have "r2 = \<lparr>request_url = ''https://x.test/upload'', request_method = ''POST'',
            request_headers = [(''host'', ''x.test'')], request_body = Some ''aGVsbG8='',
            request_abortController = None\<rparr>"
    by (cases r2) simp
  ultimately show ?thesis
    using r1 r2 by simp
qed

text \<open>
  Claim C8, as stated, fails: an event may carry the header \<open>x-forwarded-host\<close> with the
  empty string as its value, and \<open>||\<close> then takes the \<open>host\<close> header.
\<close>

theorem request_url_host_counterexample:
  "property [(''x-forwarded-host'', Some []), (''host'', Some ''x.test'')] ''x-forwarded-host''
     = Some [] \<and>
   createRemixRequest plain_node
      \<lparr>event_rawPath = ''/foo'', event_rawQueryString = [],
        event_headers = [(''x-forwarded-host'', Some []), (''host'', Some ''x.test'')],
        event_cookies = None, event_body = None, event_isBase64Encoded = False,
        event_method = ''GET''\<rparr> None
     = Inr \<lparr>request_url = ''https://x.test/foo'', request_method = ''GET'',
            request_headers = [(''host'', ''x.test'')], request_body = None,
            request_abortController = None\<rparr> \<and>
   URL_href plain_node ''/foo'' (''https://'' @ []) = None"
  by (simp add: createRemixRequest_def Let_def property_def truthy_def template_def
        plain_node_def createRemixHeaders_def headers_append_def)

text \<open>
  Claim C8, amended. The host is the \<open>x-forwarded-host\<close> header when it is present and not
  the empty string, else the \<open>host\<close> header. The URL of the request is the \<open>href\<close> of
  \<open>rawPath\<close>, followed by \<open>?\<close> and \<open>rawQueryString\<close> when that is non-empty, resolved
  against \<open>https://\<close> and the host. For the event with \<open>rawPath\<close> \<open>/foo\<close>,
  \<open>rawQueryString\<close> \<open>a=1\<close> and the one header \<open>host: x.test\<close>, the \<open>URL\<close> constructor is
  given \<open>/foo?a=1\<close> and \<open>https://x.test\<close>, whose \<open>href\<close> is \<open>https://x.test/foo?a=1\<close>.
\<close>

theorem request_url_host:
  "(URL_href nd (event_rawPath ev @
        (if event_rawQueryString ev = [] then [] else ''?'' @ event_rawQueryString ev))
      (''https://'' @ host) = Some href \<and>
    ((\<exists>x. property (event_headers ev) ''x-forwarded-host'' = Some x \<and> x \<noteq> [] \<and> host = x) \<or>
     (\<not> truthy (property (event_headers ev) ''x-forwarded-host'') \<and>
        property (event_headers ev) ''host'' = Some host))
    \<longrightarrow> (\<exists>req. createRemixRequest nd ev ac = Inr req \<and> request_url req = href)) \<and>
   (event_rawPath ev' = ''/foo'' \<and> event_rawQueryString ev' = ''a=1'' \<and>
    event_headers ev' = [(''host'', Some ''x.test'')] \<and>
    URL_href nd ''/foo?a=1'' ''https://x.test'' = Some ''https://x.test/foo?a=1''
    \<longrightarrow> (\<exists>req. createRemixRequest nd ev' ac = Inr req \<and>
               request_url req = ''https://x.test/foo?a=1''))"
  by (auto simp: createRemixRequest_def Let_def truthy_def template_def property_def)

theorem request_url_host_witness:
  "(\<exists>req. createRemixRequest plain_node
      \<lparr>event_rawPath = ''/foo'', event_rawQueryString = ''a=1'',
        event_headers = [(''host'', Some ''x.test'')], event_cookies = None,
        event_body = None, event_isBase64Encoded = False, event_method = ''GET''\<rparr> None = Inr req
      \<and> request_url req = ''https://x.test/foo?a=1'') \<and>
   (\<exists>req. createRemixRequest plain_node
      \<lparr>event_rawPath = ''/foo'', event_rawQueryString = [],
        event_headers = [(''x-forwarded-host'', Some ''edge.test''), (''host'', Some ''x.test'')],
        event_cookies = None, event_body = None, event_isBase64Encoded = False,
        event_method = ''GET''\<rparr> None = Inr req
      \<and> request_url req = ''https://edge.test/foo'')"
proof -
  let ?ev1 = "\<lparr>event_rawPath = ''/foo'', event_rawQueryString = ''a=1'',
        event_headers = [(''host'', Some ''x.test'')], event_cookies = None,
        event_body = None, event_isBase64Encoded = False, event_method = ''GET''\<rparr>"
  let ?ev2 = "\<lparr>event_rawPath = ''/foo'', event_rawQueryString = [],
        event_headers = [(''x-forwarded-host'', Some ''edge.test''), (''host'', Some ''x.test'')],
        event_cookies = None, event_body = None, event_isBase64Encoded = False,
        event_method = ''GET''\<rparr>"
  have ex: "event_rawPath ?ev1 = ''/foo'' \<and> event_rawQueryString ?ev1 = ''a=1'' \<and>
      event_headers ?ev1 = [(''host'', Some ''x.test'')] \<and>
      URL_href plain_node ''/foo?a=1'' ''https://x.test'' = Some ''https://x.test/foo?a=1''"
    by (simp add: plain_node_def)
  have fw: "URL_href plain_node (event_rawPath ?ev2 @
        (if event_rawQueryString ?ev2 = [] then [] else ''?'' @ event_rawQueryString ?ev2))
      (''https://'' @ ''edge.test'') = Some ''https://edge.test/foo'' \<and>
    ((\<exists>x. property (event_headers ?ev2) ''x-forwarded-host'' = Some x \<and> x \<noteq> [] \<and> ''edge.test'' = x) \<or>
     (\<not> truthy (property (event_headers ?ev2) ''x-forwarded-host'') \<and>
        property (event_headers ?ev2) ''host'' = Some ''edge.test''))"
    by (simp add: plain_node_def property_def)
  note t1 = request_url_host [where nd = plain_node and ev' = ?ev1 and ac = None,
      THEN conjunct2, rule_format, OF ex]
  note t2 = request_url_host [where nd = plain_node and ev = ?ev2 and ac = None
      and host = "''edge.test''" and href = "''https://edge.test/foo''",
      THEN conjunct1, rule_format, OF fw]
  from t1 t2 show ?thesis by (rule conjI)
qed

text \<open>
  Claim C10. When the event's \<open>cookies\<close> is the empty array, \<open>createRemixHeaders\<close> appends
  a \<open>Cookie\<close> header whose value is the empty string after the copied headers, and the
  request built by \<open>createRemixRequest\<close> carries it.
\<close>

theorem empty_cookies_header:
  "createRemixHeaders hs (Some []) = createRemixHeaders hs None @ [(''Cookie'', [])] \<and>
   (event_cookies ev = Some [] \<and> createRemixRequest nd ev ac = Inr req \<longrightarrow>
      request_headers req = append_truthy [] (event_headers ev) @ [(''Cookie'', [])] \<and>
      (\<exists>v. headers_get (request_headers req) ''Cookie'' = Some v))"
proof -
  have a: "createRemixHeaders hs (Some []) = createRemixHeaders hs None @ [(''Cookie'', [])]" for hs
    by (simp add: createRemixHeaders_def headers_append_def)
  have b: "\<exists>v. headers_get (h @ [(''Cookie'', [])]) ''Cookie'' = Some v" for h
    by (simp add: headers_get_def same_name_def split: list.splits)
  have c: "createRemixHeaders hs None = append_truthy [] hs" for hs
    by (simp add: createRemixHeaders_def)
  show ?thesis
    using b by (auto simp: a c createRemixRequest_def Let_def split: option.splits)
qed

theorem empty_cookies_header_witness:
  "createRemixHeaders [(''host'', Some ''x.test'')] (Some [])
     = [(''host'', ''x.test''), (''Cookie'', [])] \<and>
   createRemixRequest plain_node
      \<lparr>event_rawPath = ''/foo'', event_rawQueryString = [],
        event_headers = [(''host'', Some ''x.test'')], event_cookies = Some [],
        event_body = None, event_isBase64Encoded = False, event_method = ''GET''\<rparr> None
     = Inr \<lparr>request_url = ''https://x.test/foo'', request_method = ''GET'',
            request_headers = [(''host'', ''x.test''), (''Cookie'', [])], request_body = None,
            request_abortController = None\<rparr>"
proof -
  let ?ev = "\<lparr>event_rawPath = ''/foo'', event_rawQueryString = [],
        event_headers = [(''host'', Some ''x.test'')], event_cookies = Some [],
        event_body = None, event_isBase64Encoded = False, event_method = ''GET''\<rparr>"
  have none: "createRemixHeaders [(''host'', Some ''x.test'')] None = [(''host'', ''x.test'')]"
    by (simp add: createRemixHeaders_def headers_append_def)
  have url: "URL_href plain_node ''/foo'' ''https://x.test'' = Some ''https://x.test/foo''"
    by (simp add: plain_node_def)
  obtain r where r: "createRemixRequest plain_node ?ev None = Inr r"
    and r': "request_url r = ''https://x.test/foo''" "request_method r = ''GET''"
      "request_body r = None" "request_abortController r = None"
    by (simp add: createRemixRequest_def Let_def property_def truthy_def template_def url)
  have c: "event_cookies ?ev = Some [] \<and> createRemixRequest plain_node ?ev None = Inr r"
    using r by simp
  note t = empty_cookies_header [where hs = "[(''host'', Some ''x.test'')]" and ev = ?ev
      and nd = plain_node and ac = None and req = r]
  from t have h1: "createRemixHeaders [(''host'', Some ''x.test'')] (Some [])
     = [(''host'', ''x.test''), (''Cookie'', [])]"
    by (simp add: none)
  from t [THEN conjunct2, rule_format, OF c]
  have "request_headers r = [(''host'', ''x.test''), (''Cookie'', [])]"
    by (simp add: headers_append_def)
  with r' have "r = \<lparr>request_url = ''https://x.test/foo'', request_method = ''GET'',
            request_headers = [(''host'', ''x.test''), (''Cookie'', [])], request_body = None,
            request_abortController = None\<rparr>"
    by (cases r) simp
  with r h1 show ?thesis by simp
qed

section \<open>The gateway adapter: responses\<close>

lemma lower_Set_Cookie: "toLowerCase ''Set-Cookie'' = ''set-cookie''"
  by code_simp

lemma lower_set_cookie: "toLowerCase ''set-cookie'' = ''set-cookie''"
  by code_simp

lemma lower_names_differ:
  "toLowerCase ''Content-Type'' \<noteq> toLowerCase ''Set-Cookie''"
  "toLowerCase ''Content-Type'' \<noteq> toLowerCase ''Connection''"
  "toLowerCase ''Connection'' \<noteq> ''set-cookie''"
  by code_simp+

lemma toLowerCase_char_idem: "toLowerCase_char (toLowerCase_char ch) = toLowerCase_char ch"
  by (simp add: toLowerCase_char_def Let_def)

lemma toLowerCase_idem: "toLowerCase (toLowerCase s) = toLowerCase s"
  by (simp add: toLowerCase_def toLowerCase_char_idem)

lemma push_values_append: "push_values cookies vs = cookies @ vs"
  by (induction vs arbitrary: cookies) auto

lemma collect_cookies_raw:
  "collect_cookies acc (headers_raw h) =
     acc @ map snd (filter (\<lambda>entry. toLowerCase (fst entry) = ''set-cookie'') h)"
proof (induction h arbitrary: acc rule: headers_raw.induct)
  case 1
  then show ?case by simp
next
  case (2 name v rest)
  let ?sc = "\<lambda>entry :: string \<times> string. toLowerCase (fst entry) = ''set-cookie''"
  show ?case
  proof (cases "toLowerCase name = ''set-cookie''")
    case True
    then have same: "same_name name = ?sc"
      by (auto simp: same_name_def fun_eq_iff)
    have none: "filter ?sc (filter (\<lambda>entry. \<not> same_name name entry) rest) = []"
      by (simp add: same filter_empty_conv)
    show ?thesis
      using True by (simp add: "2.IH" push_values_append none) (simp add: same)
  next
    case False
    have keep: "filter ?sc (filter (\<lambda>entry. \<not> same_name name entry) rest) = filter ?sc rest"
      using False by (auto simp: same_name_def intro!: filter_cong)
    show ?thesis
      using False keep by (simp add: "2.IH")
  qed
qed

lemma dom_fold_upd:
  "dom (fold (\<lambda>(k, v) obj. obj(k \<mapsto> v)) entries m) = dom m \<union> fst ` set entries"
  by (induction entries arbitrary: m) auto

lemma dom_Object_fromEntries: "dom (Object_fromEntries entries) = fst ` set entries"
  by (simp add: Object_fromEntries_def dom_fold_upd)

lemma headers_raw_keys: "fst ` set (headers_raw h) \<subseteq> fst ` set h"
proof (induction h rule: headers_raw.induct)
  case 1
  then show ?case by simp
next
  case (2 name v rest)
  have "fst ` set (filter (\<lambda>entry. \<not> same_name name entry) rest) \<subseteq> fst ` set rest"
    by auto
  with 2 show ?case by auto
qed

lemma headers_entries_keys:
  "fst ` set (headers_entries h) \<subseteq> toLowerCase ` fst ` set h"
proof -
  have "fst ` set (headers_entries h) = toLowerCase ` fst ` set (headers_raw h)"
    by (force simp: headers_entries_def image_iff split: prod.splits)
  also have "\<dots> \<subseteq> toLowerCase ` fst ` set h"
    by (rule image_mono) (rule headers_raw_keys)
  finally show ?thesis .
qed

lemma headers_get_delete_other:
  "toLowerCase n \<noteq> toLowerCase m \<Longrightarrow> headers_get (headers_delete h m) n = headers_get h n"
proof -
  assume d: "toLowerCase n \<noteq> toLowerCase m"
  have "filter (same_name n) (filter (\<lambda>entry. \<not> same_name m entry) h) = filter (same_name n) h"
    using d by (auto simp: same_name_def intro!: filter_cong)
  then show ?thesis
    by (simp add: headers_get_def headers_delete_def)
qed

lemma headers_get_set_other:
  "toLowerCase n \<noteq> toLowerCase m \<Longrightarrow> headers_get (headers_set h m v) n = headers_get h n"
proof -
  assume d: "toLowerCase n \<noteq> toLowerCase m"
  have "filter (same_name n) (headers_set h m v) = filter (same_name n) (headers_delete h m)"
    using d by (auto simp: headers_set_def headers_append_def same_name_def)
  moreover have "filter (same_name n) (headers_delete h m) = filter (same_name n) h"
    using d by (auto simp: headers_delete_def same_name_def intro!: filter_cong)
  ultimately show ?thesis
    by (simp add: headers_get_def)
qed

lemma no_set_cookie_after:
  assumes "\<forall>entry\<in>set h. toLowerCase (fst entry) \<noteq> ''set-cookie''"
    and "toLowerCase k = ''set-cookie''"
  shows "Object_fromEntries (headers_entries h) k = None"
proof -
  have "k \<notin> fst ` set (headers_entries h)"
  proof
    assume "k \<in> fst ` set (headers_entries h)"
    then obtain k0 where k0: "k0 \<in> fst ` set h" "k = toLowerCase k0"
      using headers_entries_keys [of h] by blast
    then have "toLowerCase k = toLowerCase k0"
      by (simp add: toLowerCase_idem)
    with assms k0 show False by auto
  qed
  then show ?thesis
    using dom_Object_fromEntries [of "headers_entries h"] by (auto simp: domIff)
qed

text \<open>
  Claim C3. When \<open>N\<close> entries of the response's headers are named \<open>Set-Cookie\<close>, in any
  case of letters, \<open>cookies\<close> in the result of \<open>sendRemixResponse\<close> holds their \<open>N\<close> values,
  in order, and \<open>headers\<close> in the result has no key that is \<open>set-cookie\<close> in lower case.
\<close>

theorem set_cookie_moved:
  fixes r :: response
  defines "sc \<equiv> filter (\<lambda>entry. toLowerCase (fst entry) = ''set-cookie'') (response_headers r)"
  shows "result_cookies (sendRemixResponse nd bt r ac) = map snd sc \<and>
         length (result_cookies (sendRemixResponse nd bt r ac)) = length sc \<and>
         (\<forall>k. toLowerCase k = ''set-cookie'' \<longrightarrow>
              result_headers (sendRemixResponse nd bt r ac) k = None)"
proof -
  let ?h = "response_headers r"
  have cookies: "collect_cookies [] (headers_raw ?h) = map snd sc"
    by (simp add: collect_cookies_raw sc_def)
  let ?h1 = "if length (map snd sc) \<noteq> 0 then headers_delete ?h ''Set-Cookie'' else ?h"
  let ?h2 = "if signal_aborted ac then headers_set ?h1 ''Connection'' ''close'' else ?h1"
  have h1: "\<forall>entry\<in>set ?h1. toLowerCase (fst entry) \<noteq> ''set-cookie''"
  proof (cases "sc = []")
    case True
    then show ?thesis
      by (auto simp: sc_def filter_empty_conv)
  next
    case False
    then show ?thesis
      by (auto simp: headers_delete_def same_name_def lower_Set_Cookie)
  qed
  have h2: "\<forall>entry\<in>set ?h2. toLowerCase (fst entry) \<noteq> ''set-cookie''"
    using h1 lower_names_differ(3)
    by (auto simp: headers_set_def headers_append_def headers_delete_def)
  have hdrs: "result_headers (sendRemixResponse nd bt r ac) = Object_fromEntries (headers_entries ?h2)"
    by (simp add: sendRemixResponse_def Let_def cookies)
  have "result_cookies (sendRemixResponse nd bt r ac) = map snd sc"
    by (simp add: sendRemixResponse_def Let_def cookies)
  moreover have "\<forall>k. toLowerCase k = ''set-cookie'' \<longrightarrow>
              result_headers (sendRemixResponse nd bt r ac) k = None"
    unfolding hdrs using no_set_cookie_after [OF h2] by blast
  ultimately show ?thesis by simp
qed

theorem set_cookie_moved_witness:
  "result_cookies (sendRemixResponse plain_node [''image/png'']
      \<lparr>response_status = 200,
        response_headers = [(''Set-Cookie'', ''a=1''), (''Content-Type'', ''text/html''),
                            (''set-cookie'', ''b=2'')],
        response_arrayBuffer = [104, 105], response_text = ''hi''\<rparr>
      \<lparr>signal_aborted = False\<rparr>) = [''a=1'', ''b=2''] \<and>
   result_headers (sendRemixResponse plain_node [''image/png'']
      \<lparr>response_status = 200,
        response_headers = [(''Set-Cookie'', ''a=1''), (''Content-Type'', ''text/html''),
                            (''set-cookie'', ''b=2'')],
        response_arrayBuffer = [104, 105], response_text = ''hi''\<rparr>
      \<lparr>signal_aborted = False\<rparr>) ''set-cookie'' = None"
proof -
  let ?r = "\<lparr>response_status = 200,
        response_headers = [(''Set-Cookie'', ''a=1''), (''Content-Type'', ''text/html''),
                            (''set-cookie'', ''b=2'')],
        response_arrayBuffer = [104, 105], response_text = ''hi''\<rparr>"
  have f: "map snd (filter (\<lambda>entry. toLowerCase (fst entry) = ''set-cookie'') (response_headers ?r))
      = [''a=1'', ''b=2'']"
    by code_simp
  have lc: "toLowerCase ''set-cookie'' = ''set-cookie''"
    by code_simp
  note t = set_cookie_moved [where nd = plain_node and bt = "[''image/png'']" and r = ?r
      and ac = "\<lparr>signal_aborted = False\<rparr>"]
  from t have "result_cookies (sendRemixResponse plain_node [''image/png''] ?r \<lparr>signal_aborted = False\<rparr>)
      = [''a=1'', ''b=2'']"
    unfolding f by (rule conjunct1)
  moreover from t lc have "result_headers (sendRemixResponse plain_node [''image/png''] ?r
      \<lparr>signal_aborted = False\<rparr>) ''set-cookie'' = None"
    by blast
  ultimately show ?thesis by (rule conjI)
qed

lemma content_type_kept:
  "headers_get
     (let cookies = collect_cookies [] (headers_raw h);
          h1 = (if length cookies \<noteq> 0 then headers_delete h ''Set-Cookie'' else h)
      in if aborted then headers_set h1 ''Connection'' ''close'' else h1) ''Content-Type''
   = headers_get h ''Content-Type''"
  by (simp add: Let_def headers_get_set_other headers_get_delete_other lower_names_differ)

text \<open>
  Claim C4. When the response's \<open>Content-Type\<close> is in the binary allow-list, the result
  has \<open>isBase64Encoded\<close> true and its body is the base64 encoding of the response's bytes,
  so that decoding it gives the bytes back whenever \<open>Buffer\<close> decodes what it encoded.
  With any other \<open>Content-Type\<close>, or none, \<open>isBase64Encoded\<close> is false and the body is the
  response's text.
\<close>

theorem binary_body:
  fixes r :: response and nd :: node and bt :: "string list" and ac :: abort_controller
  defines "ct \<equiv> headers_get (response_headers r) ''Content-Type''"
  defines "res \<equiv> sendRemixResponse nd bt r ac"
  shows "((\<exists>t. ct = Some t \<and> t \<in> set bt) \<longrightarrow>
            result_isBase64Encoded res \<and>
            result_body res = Buffer_toString_base64 nd (response_arrayBuffer r) \<and>
            (Buffer_from_base64 nd (Buffer_toString_base64 nd (response_arrayBuffer r)) = response_arrayBuffer r
               \<longrightarrow> Buffer_from_base64 nd (result_body res) = response_arrayBuffer r)) \<and>
         (\<not> (\<exists>t. ct = Some t \<and> t \<in> set bt) \<longrightarrow>
            \<not> result_isBase64Encoded res \<and> result_body res = response_text r)"
proof -
  have bin: "isBinaryType bt ct = (\<exists>t. ct = Some t \<and> t \<in> set bt)"
    by (auto simp: isBinaryType_def split: option.splits)
  have "result_isBase64Encoded res = isBinaryType bt ct"
    using content_type_kept [of "response_headers r" "signal_aborted ac"]
    by (simp add: res_def ct_def sendRemixResponse_def Let_def)
  moreover have "result_body res =
      (if isBinaryType bt ct then Buffer_toString_base64 nd (response_arrayBuffer r)
       else response_text r)"
    using content_type_kept [of "response_headers r" "signal_aborted ac"]
    by (simp add: res_def ct_def sendRemixResponse_def Let_def)
  ultimately show ?thesis
    unfolding bin by auto
qed

theorem binary_body_witness:
  "result_isBase64Encoded (sendRemixResponse plain_node [''image/png'', ''application/pdf'']
      \<lparr>response_status = 200, response_headers = [(''content-type'', ''image/png'')],
        response_arrayBuffer = [137, 80, 78, 71], response_text = ''.PNG''\<rparr>
      \<lparr>signal_aborted = False\<rparr>) \<and>
   result_body (sendRemixResponse plain_node [''image/png'', ''application/pdf'']
      \<lparr>response_status = 200, response_headers = [(''content-type'', ''image/png'')],
        response_arrayBuffer = [137, 80, 78, 71], response_text = ''.PNG''\<rparr>
      \<lparr>signal_aborted = False\<rparr>) = ''iVBORw=='' \<and>
   Buffer_from_base64 plain_node ''iVBORw=='' = [137, 80, 78, 71] \<and>
   \<not> result_isBase64Encoded (sendRemixResponse plain_node [''image/png'', ''application/pdf'']
      \<lparr>response_status = 200, response_headers = [(''content-type'', ''text/html'')],
        response_arrayBuffer = [104, 105], response_text = ''hi''\<rparr>
      \<lparr>signal_aborted = True\<rparr>) \<and>
   result_body (sendRemixResponse plain_node [''image/png'', ''application/pdf'']
      \<lparr>response_status = 200, response_headers = [(''content-type'', ''text/html'')],
        response_arrayBuffer = [104, 105], response_text = ''hi''\<rparr>
      \<lparr>signal_aborted = True\<rparr>) = ''hi''"
proof -
  let ?png = "\<lparr>response_status = 200, response_headers = [(''content-type'', ''image/png'')],
        response_arrayBuffer = [137, 80, 78, 71], response_text = ''.PNG''\<rparr>"
  let ?html = "\<lparr>response_status = 200, response_headers = [(''content-type'', ''text/html'')],
        response_arrayBuffer = [104, 105], response_text = ''hi''\<rparr>"
  let ?bt = "[''image/png'', ''application/pdf'']"
  have ct1: "headers_get (response_headers ?png) ''Content-Type'' = Some ''image/png''"
    by code_simp
  have ct2: "headers_get (response_headers ?html) ''Content-Type'' = Some ''text/html''"
    by code_simp
  have in1: "\<exists>t. headers_get (response_headers ?png) ''Content-Type'' = Some t \<and> t \<in> set ?bt"
    unfolding ct1 by simp
  have in2: "\<not> (\<exists>t. headers_get (response_headers ?html) ''Content-Type'' = Some t \<and> t \<in> set ?bt)"
    unfolding ct2 by simp
  have enc: "Buffer_toString_base64 plain_node (response_arrayBuffer ?png) = ''iVBORw==''"
    by code_simp
  have dec: "Buffer_from_base64 plain_node ''iVBORw=='' = [137, 80, 78, 71]"
    by code_simp
  note b = binary_body [where nd = plain_node and bt = ?bt and r = ?png
      and ac = "\<lparr>signal_aborted = False\<rparr>", THEN conjunct1, rule_format, OF in1]
  note t = binary_body [where nd = plain_node and bt = ?bt and r = ?html
      and ac = "\<lparr>signal_aborted = True\<rparr>", THEN conjunct2, rule_format, OF in2]
  from b t enc dec show ?thesis
    by simp
qed

end
